theory Spec2Isabelle
  imports Main "HOL-Library.AList" "HOL-Library.Sublist" "HOL-Library.List_Lexorder"
begin

section \<open>Python strings and the library functions the code calls\<close>

text \<open>
  A Python \<open>str\<close> is a sequence of Unicode code points; \<open>len\<close>, \<open>endswith\<close> and
  slicing count code points. The lexicon is Greek, so a string is modelled as a list of
  code points (natural numbers), not as a list of bytes. \<open>ascii\<close> embeds an ASCII literal.
\<close>

type_synonym pychar = nat
type_synonym pystr = "pychar list"

definition ascii :: "string \<Rightarrow> pystr" where
  "ascii s = map of_char s"

definition TAB :: pychar where "TAB = 9"
definition NL :: pychar where "NL = 10"
definition HASH :: pychar where "HASH = 35"
definition PLUS :: pychar where "PLUS = 43"
definition HYPHEN :: pychar where "HYPHEN = 45"
definition UNDERSCORE :: pychar where "UNDERSCORE = 95"
definition BAR :: pychar where "BAR = 124"

text \<open>The exceptions the modelled code can raise.\<close>

datatype py_error = IndexError | KeyError | ValueError

text \<open>
  The Unicode tables behind \<open>unicodedata.normalize('NFD', _)\<close>,
  \<open>unicodedata.category(_) = 'Mn'\<close>, \<open>str.lower\<close>, the whitespace test of \<open>str.strip\<close>
  and the regular expression class \<open>\d\<close> belong to the Python runtime, not to the
  repository. They are parameters of the model: every theorem below holds for all of them.
\<close>

record stdlib =
  normalize_NFD :: "pystr \<Rightarrow> pystr"
  is_Mn :: "pychar \<Rightarrow> bool"
  str_lower :: "pystr \<Rightarrow> pystr"
  is_space :: "pychar \<Rightarrow> bool"
  is_digit :: "pychar \<Rightarrow> bool"

text \<open>
  \<open>sample_lib\<close> is the instance used to evaluate the model on concrete inputs. It agrees
  with CPython on strings made of ASCII characters and of unaccented lowercase Greek
  letters (U+03B1 .. U+03C9), which are the only strings evaluated below: on these NFD is
  the identity, no character is a combining mark, only \<open>A-Z\<close> change under \<open>lower\<close>, the
  whitespace characters are U+0009 .. U+000D and U+001C .. U+0020, and the decimal digits
  are \<open>0-9\<close>.
\<close>

definition sample_lower :: "pychar \<Rightarrow> pychar" where
  "sample_lower c = (if 65 \<le> c \<and> c \<le> 90 then c + 32 else c)"

definition sample_lib :: stdlib where
  "sample_lib = \<lparr> normalize_NFD = (\<lambda>s. s),
                  is_Mn = (\<lambda>c. 768 \<le> c \<and> c \<le> 879),
                  str_lower = map sample_lower,
                  is_space = (\<lambda>c. (9 \<le> c \<and> c \<le> 13) \<or> (28 \<le> c \<and> c \<le> 32)),
                  is_digit = (\<lambda>c. 48 \<le> c \<and> c \<le> 57) \<rparr>"

text \<open>\<open>s.split(sep)\<close> for a one-character separator: never empty, \<open>''.split(sep) = ['']\<close>.\<close>

fun str_split :: "pychar \<Rightarrow> pystr \<Rightarrow> pystr list" where
  "str_split sep [] = [[]]"
| "str_split sep (c # cs) =
     (if c = sep then [] # str_split sep cs
      else (case str_split sep cs of
              [] \<Rightarrow> [[c]]
            | p # ps \<Rightarrow> (c # p) # ps))"

text \<open>\<open>s.split(sep, n)\<close>: at most \<open>n\<close> splits, the rest of the string is the last piece.\<close>

fun str_split_max :: "pychar \<Rightarrow> nat \<Rightarrow> pystr \<Rightarrow> pystr list" where
  "str_split_max sep 0 s = [s]"
| "str_split_max sep (Suc n) [] = [[]]"
| "str_split_max sep (Suc n) (c # cs) =
     (if c = sep then [] # str_split_max sep n cs
      else (case str_split_max sep (Suc n) cs of
              [] \<Rightarrow> [[c]]
            | p # ps \<Rightarrow> (c # p) # ps))"

text \<open>\<open>sep.join(xs)\<close>.\<close>

fun str_join :: "pystr \<Rightarrow> pystr list \<Rightarrow> pystr" where
  "str_join sep [] = []"
| "str_join sep [x] = x"
| "str_join sep (x # y # ys) = x @ sep @ str_join sep (y # ys)"

text \<open>\<open>s.strip()\<close>: leading and trailing whitespace removed.\<close>

definition str_strip :: "stdlib \<Rightarrow> pystr \<Rightarrow> pystr" where
  "str_strip L s = rev (dropWhile (is_space L) (rev (dropWhile (is_space L) s)))"

definition endswith :: "pystr \<Rightarrow> pystr \<Rightarrow> bool" where
  "endswith s suf = (take (length suf) (rev s) = rev suf)"

definition startswith :: "pystr \<Rightarrow> pystr \<Rightarrow> bool" where
  "startswith s pre = (take (length pre) s = pre)"

section \<open>inflections.py: the inflection table\<close>

definition INFLECTED :: "pystr list" where
  "INFLECTED = map ascii [''ADJ'', ''DET'', ''NOUN'', ''NUM'', ''PRON'', ''VERB'',
                          ''PROPN'', ''ADV'', ''AUX'']"

text \<open>
  The three shapes of a table entry: \<open>{'pos': p}\<close>, \<open>{'pos': p, 'annotations': a}\<close> and
  \<open>{'pos': p, 'inflections': {word: annotations, ...}}\<close>. A Python dictionary keeps its
  keys in insertion order and assigning to a present key keeps the key's place; the
  association lists with \<open>AList.update\<close> do the same.
\<close>

datatype entry =
    Bare pystr
  | Contraction pystr "pystr list"
  | Inflected pystr "(pystr \<times> pystr list) list"

type_synonym table = "(pystr \<times> entry) list"

fun entry_pos :: "entry \<Rightarrow> pystr" where
  "entry_pos (Bare p) = p"
| "entry_pos (Contraction p a) = p"
| "entry_pos (Inflected p forms) = p"

text \<open>\<open>info.get("inflections", [])\<close> followed by the list of its keys.\<close>

fun entry_words :: "entry \<Rightarrow> pystr list" where
  "entry_words (Inflected p forms) = map fst forms"
| "entry_words e = []"

fun has_inflections :: "entry \<Rightarrow> bool" where
  "has_inflections (Inflected p forms) = True"
| "has_inflections e = False"

text \<open>\<open>lemma in inflections\<close>; the lemma may be \<open>None\<close>, which is never a key.\<close>

fun has_key :: "table \<Rightarrow> pystr option \<Rightarrow> bool" where
  "has_key t None = False"
| "has_key t (Some l) = (map_of t l \<noteq> None)"

text \<open>
  \<open>store_in\<close>, lines 36-71. The \<open>try\<close> of the second branch fails with a KeyError exactly
  when the entry of the lemma has no \<open>'inflections'\<close> key; the bare \<open>except\<close> then
  replaces the entry.
\<close>

definition store_in :: "table \<Rightarrow> pystr \<Rightarrow> pystr option \<Rightarrow> pystr \<Rightarrow> pystr \<Rightarrow> table" where
  "store_in inflections word lemma pos ann =
     (let annotations = str_split BAR ann in
      if \<not> has_key inflections lemma then
        (if PLUS \<in> set pos then
           AList.update word (Contraction pos annotations) inflections
         else if pos \<in> set INFLECTED then
           AList.update (case lemma of None \<Rightarrow> word | Some l \<Rightarrow> l)
             (Inflected pos [(word, annotations)]) inflections
         else AList.update word (Bare pos) inflections)
      else if pos \<in> set INFLECTED then
        (case lemma of
           None \<Rightarrow> inflections
         | Some l \<Rightarrow>
             (case map_of inflections l of
                Some (Inflected p forms) \<Rightarrow>
                  AList.update l (Inflected p (AList.update word annotations forms)) inflections
              | _ \<Rightarrow> AList.update l (Inflected pos [(word, annotations)]) inflections))
      else inflections)"

text \<open>
  \<open>update_contraction\<close>, lines 97-126. The loop \<open>for j in range(2)\<close> is the recursion on
  the number of rounds left; its state is the index \<open>i\<close> and the two buffers. \<open>lines[i]\<close>
  raises IndexError at \<open>i = len(lines)\<close>, and unpacking \<open>info\<close> into five names raises
  ValueError when it has more than five fields.
\<close>

fun contraction_loop ::
  "stdlib \<Rightarrow> pystr list \<Rightarrow> nat \<Rightarrow> nat \<Rightarrow> pystr list \<Rightarrow> pystr list
     \<Rightarrow> py_error + (pystr list \<times> pystr list)" where
  "contraction_loop L lines 0 i pos annotations = Inr (pos, annotations)"
| "contraction_loop L lines (Suc n) i pos annotations =
     (if i \<ge> length lines then Inr (pos, annotations)
      else if i + 1 \<ge> length lines then Inl IndexError
      else
        (let line = str_strip L (lines ! (i + 1)) in
         if line = [] then contraction_loop L lines n (i + 1) pos annotations
         else
           (let info = str_split TAB line in
            if length info < 5 then contraction_loop L lines n (i + 1) pos annotations
            else
              (case info of
                 [_, _, next_pos, _, next_anns] \<Rightarrow>
                   contraction_loop L lines n (i + 1) (pos @ [next_pos])
                     (if next_anns \<noteq> [UNDERSCORE] then annotations @ [next_anns]
                      else annotations)
               | _ \<Rightarrow> Inl ValueError))))"

definition update_contraction ::
  "stdlib \<Rightarrow> pystr list \<Rightarrow> nat \<Rightarrow> py_error + (pystr \<times> pystr)" where
  "update_contraction L lines i =
     (case contraction_loop L lines 2 i [] [] of
        Inl e \<Rightarrow> Inl e
      | Inr (pos, annotations) \<Rightarrow> Inr (str_join [PLUS] pos, str_join [BAR] annotations))"

text \<open>\<open>update\<close>, lines 154-161; \<open>info\<close> is unpacked into five names.\<close>

definition update ::
  "stdlib \<Rightarrow> table \<Rightarrow> pystr list \<Rightarrow> pystr list \<Rightarrow> nat \<Rightarrow> py_error + table" where
  "update L inflections info lines i =
     (case info of
        [word, lemma, pos, _, ann] \<Rightarrow>
          (if lemma = [UNDERSCORE] \<or> pos = [UNDERSCORE] then
             (case update_contraction L lines i of
                Inl e \<Rightarrow> Inl e
              | Inr (pos', ann') \<Rightarrow> Inr (store_in inflections word (Some lemma) pos' ann'))
           else Inr (store_in inflections word (Some lemma) pos ann))
      | _ \<Rightarrow> Inl ValueError)"

text \<open>
  \<open>get_inflections\<close>, lines 180-196, on the lines read from the file. The \<open>while\<close> loop
  need not terminate, so it is a partial function: \<open>None\<close> is "never returns",
  \<open>Some (Inl e)\<close> an uncaught exception, \<open>Some (Inr t)\<close> the table handed to \<open>to_json\<close>.
\<close>

partial_function (option) inflections_loop ::
  "stdlib \<Rightarrow> pystr list \<Rightarrow> table \<Rightarrow> nat \<Rightarrow> (py_error + table) option" where
  "inflections_loop L lines inflections i =
     (if i < length lines then
        (let tabs = str_split TAB (str_strip L (lines ! i)) in
         if length tabs \<noteq> 5 then inflections_loop L lines inflections i
         else
           (case update L inflections tabs lines i of
              Inl e \<Rightarrow> Some (Inl e)
            | Inr inflections' \<Rightarrow> inflections_loop L lines inflections' (i + 1)))
      else Some (Inr inflections))"

declare inflections_loop.simps [code]

definition get_inflections :: "stdlib \<Rightarrow> pystr list \<Rightarrow> (py_error + table) option" where
  "get_inflections L lines = inflections_loop L lines [] 0"

section \<open>greek.py: stems and inflectional classes\<close>

text \<open>
  The Greek literals of the source, as code points: U+03B1 alpha = 945, epsilon 949,
  eta 951, theta 952, iota 953, kappa 954, mu 956, nu 957, omicron 959, pi 960, rho 961,
  final sigma 962, tau 964, omega 969; with tonos: alpha 940, epsilon 941, eta 942,
  omicron 972, upsilon 973, omega 974 (all precomposed in the source file).
\<close>

definition LEMMA_SUFFIXES :: "pystr list" where
  "LEMMA_SUFFIXES =
     [[945, 969], [949, 969], [945, 956, 945, 953], [969, 956, 945, 953],
      [959, 956, 945, 953], [959, 962], [951, 962], [945, 962], [956, 945], [953, 959],
      [945], [951], [959], [969]]"

text \<open>The class tables are dictionaries iterated in insertion order: association lists.\<close>

definition VERB_CLASSES :: "(pystr \<times> pystr list) list" where
  "VERB_CLASSES =
     [(ascii ''b1'', [[940, 969], [941, 969]]),
      (ascii ''b2'', [[974]]),
      (ascii ''a'', [[969]]),
      ([960, 945, 952],
         [[940, 956, 945, 953], [974, 956, 945, 953], [959, 956, 945, 953], [964, 945, 953]])]"

definition NOUN_CLASSES :: "(pystr \<times> pystr list) list" where
  "NOUN_CLASSES =
     [(ascii ''masc-'' @ [959, 962], [[959, 962]]),
      (ascii ''masc-'' @ [945, 962], [[945, 962]]),
      (ascii ''masc-'' @ [951, 962], [[951, 962], [942, 962]]),
      (ascii ''neut-'' @ [956, 945], [[956, 945]]),
      (ascii ''neut-'' @ [953], [[953], [972, 962]]),
      (ascii ''neut-'' @ [959], [[959], [972]]),
      (ascii ''fem-'' @ [945], [[945]]),
      (ascii ''fem-'' @ [951], [[951], [942]])]"

definition ADJ_CLASSES :: "(pystr \<times> pystr list) list" where
  "ADJ_CLASSES =
     [([972, 962],
         [[961, 972, 962], [957, 972, 962], [945, 954, 972, 962], [953, 954, 972, 962],
          [972, 962]]),
      ([959, 962], [[953, 957, 959, 962], [953, 959, 962], [959, 962]]),
      ([942, 962], [[942, 962]]),
      ([951, 962], [[951, 962]]),
      ([973, 962], [[973, 962]])]"

text \<open>\<open>CLASSES\<close> has four keys; the line for \<open>"PROPN"\<close> is commented out in the source.\<close>

definition CLASSES :: "(pystr \<times> (pystr \<times> pystr list) list) list" where
  "CLASSES =
     [(ascii ''ADJ'', ADJ_CLASSES),
      (ascii ''VERB'', VERB_CLASSES),
      (ascii ''NOUN'', NOUN_CLASSES),
      (ascii ''PRON'', NOUN_CLASSES)]"

definition TO_STEM :: "pystr list" where
  "TO_STEM = map ascii [''ADJ'', ''NOUN'', ''VERB'', ''PRON'', ''PROPN'']"

text \<open>\<open>remove_tonos\<close>, lines 70-73.\<close>

definition remove_tonos :: "stdlib \<Rightarrow> pystr \<Rightarrow> pystr" where
  "remove_tonos L word =
     str_lower L (filter (\<lambda>char. \<not> is_Mn L char) (normalize_NFD L word))"

text \<open>
  \<open>os.path.commonprefix\<close> is library code: the longest string that is a prefix of every
  string of the list, compared character by character, and \<open>''\<close> for the empty list.
\<close>

fun commonprefix :: "pystr list \<Rightarrow> pystr" where
  "commonprefix [] = []"
| "commonprefix [s] = s"
| "commonprefix (s # t # ts) = longest_common_prefix s (commonprefix (t # ts))"

text \<open>
  The \<open>for suffix in LEMMA_SUFFIXES\<close> loop of \<open>get_stem\<close>, lines 101-104. When
  \<open>lemma_tonos.endswith(suffix)\<close>, the pattern \<open>suffix$\<close> matches once, at the end (the
  string does not end in a newline), so \<open>re.sub\<close> drops the last \<open>len(suffix)\<close> characters.
  When no suffix matches, \<open>stem\<close> keeps the value it had before the loop.
\<close>

fun strip_suffix :: "pystr \<Rightarrow> pystr \<Rightarrow> pystr list \<Rightarrow> pystr" where
  "strip_suffix stem lemma_tonos [] = stem"
| "strip_suffix stem lemma_tonos (sfx # rest) =
     (if endswith lemma_tonos sfx
      then take (length lemma_tonos - length sfx) lemma_tonos
      else strip_suffix stem lemma_tonos rest)"

definition get_stem :: "stdlib \<Rightarrow> pystr \<Rightarrow> pystr list \<Rightarrow> pystr" where
  "get_stem L lemma words =
     (let lemma_tonos = remove_tonos L lemma;
          words_tonos = map (remove_tonos L) words;
          stem = commonprefix (lemma_tonos # words_tonos)
      in if length stem < 4 \<or> length words < 2
         then strip_suffix stem lemma_tonos LEMMA_SUFFIXES
         else stem)"

text \<open>The loop of \<open>get_class\<close>, lines 123-125, over the classes in order.\<close>

fun first_class :: "pystr \<Rightarrow> (pystr \<times> pystr list) list \<Rightarrow> pystr option" where
  "first_class lemma [] = None"
| "first_class lemma ((tag, endings) # rest) =
     (if list_ex (endswith lemma) endings then Some tag else first_class lemma rest)"

text \<open>
  \<open>get_class\<close>, lines 123-129: \<open>CLASSES[pos]\<close> raises KeyError for a POS that is not a
  key; the result \<open>None\<close> of the source is \<open>Inr None\<close>.
\<close>

definition get_class :: "pystr \<Rightarrow> pystr \<Rightarrow> py_error + pystr option" where
  "get_class lemma pos =
     (case map_of CLASSES pos of
        None \<Rightarrow> Inl KeyError
      | Some classes \<Rightarrow>
          (case first_class lemma classes of
             Some tag \<Rightarrow> Inr (Some tag)
           | None \<Rightarrow> if pos = ascii ''VERB'' then Inr (Some []) else Inr None))"

text \<open>\<open>analyze_inflections\<close>, lines 152-160.\<close>

definition analyze_inflections ::
  "stdlib \<Rightarrow> pystr \<Rightarrow> pystr list \<Rightarrow> pystr \<Rightarrow> py_error + (pystr \<times> pystr)" where
  "analyze_inflections L lemma words pos =
     (let stem = get_stem L lemma words in
      case get_class lemma pos of
        Inl e \<Rightarrow> Inl e
      | Inr None \<Rightarrow> Inr (lemma, str_lower L pos)
      | Inr (Some class_tag) \<Rightarrow> Inr (stem, str_join [HYPHEN] [str_lower L pos, class_tag]))"

text \<open>
  \<open>get_greek_lexicon\<close>, lines 183-206, on the dictionary loaded from the JSON file.
  \<open>lexicon_entry\<close> is the body of the loop (the row built for one item), and \<open>to_txt\<close>
  sorts the rows before writing them; the model returns the rows written.
\<close>

definition lexicon_entry :: "stdlib \<Rightarrow> pystr \<Rightarrow> entry \<Rightarrow> py_error + pystr" where
  "lexicon_entry L lemma info =
     (let pos = entry_pos info; inflections = entry_words info in
      if pos \<notin> set TO_STEM then Inr (lemma @ [TAB] @ lemma @ [TAB] @ str_lower L pos)
      else
        (case analyze_inflections L lemma inflections pos of
           Inl e \<Rightarrow> Inl e
         | Inr (stem, class_tag) \<Rightarrow> Inr (lemma @ [TAB] @ stem @ [TAB] @ class_tag)))"

fun lexicon_loop :: "stdlib \<Rightarrow> table \<Rightarrow> pystr list \<Rightarrow> py_error + pystr list" where
  "lexicon_loop L [] lexicon = Inr lexicon"
| "lexicon_loop L ((lemma, info) # rest) lexicon =
     (case lexicon_entry L lemma info of
        Inl e \<Rightarrow> Inl e
      | Inr row \<Rightarrow> lexicon_loop L rest (lexicon @ [row]))"

definition get_greek_lexicon :: "stdlib \<Rightarrow> table \<Rightarrow> py_error + pystr list" where
  "get_greek_lexicon L dict =
     (case lexicon_loop L dict [] of
        Inl e \<Rightarrow> Inl e
      | Inr lexicon \<Rightarrow> Inr (sort lexicon))"

section \<open>file.py: the corpus normalizer\<close>

definition TO_IGNORE :: "pystr list" where
  "TO_IGNORE = map ascii [''PUNCT'', ''Foreign=Yes'', ''SYM'', ''Abbr=Yes'', ''X'']"

text \<open>
  \<open>from_conllu\<close>, lines 111-128, on the lines read from the file; the model returns the
  list \<open>txt\<close> of the lines written. \<open>n in TO_IGNORE\<close> is list membership of the whole
  field \<open>n\<close>; \<open>re.search(r'\d', annotations[0])\<close> looks for a digit in the first field
  after the identifier; \<open>to_add[1:-1]\<close> drops the first and the last piece.
\<close>

fun conllu_loop :: "stdlib \<Rightarrow> pystr list \<Rightarrow> pystr list \<Rightarrow> pystr list" where
  "conllu_loop L [] txt = txt"
| "conllu_loop L (line # lines) txt =
     (if startswith line [HASH] then conllu_loop L lines txt
      else
        (let parts = str_split_max TAB 1 line in
         if length parts > 1 then
           (let annotations = str_split TAB (parts ! 1) in
            if list_ex (\<lambda>n. n \<in> set TO_IGNORE) annotations
               \<or> list_ex (is_digit L) (annotations ! 0)
            then conllu_loop L lines txt
            else
              (let to_add = str_split_max TAB 5 (parts ! 1);
                   word = str_lower L (to_add ! 0) @ [TAB]
               in conllu_loop L lines
                    (txt @ [word @ str_join [TAB] (butlast (tl to_add)) @ [NL]])))
         else conllu_loop L lines txt))"

definition from_conllu :: "stdlib \<Rightarrow> pystr list \<Rightarrow> pystr list" where
  "from_conllu L lines = conllu_loop L lines []"

section \<open>Auxiliary facts\<close>

lemmas char_defs = TAB_def NL_def HASH_def PLUS_def HYPHEN_def UNDERSCORE_def BAR_def

lemma ascii_simps [simp]:
  "ascii [] = []"
  "ascii (c # cs) = of_char c # ascii cs"
  by (simp_all add: ascii_def)

lemma sample_lib_simps [simp]:
  "normalize_NFD sample_lib = (\<lambda>s. s)"
  "is_Mn sample_lib = (\<lambda>c. 768 \<le> c \<and> c \<le> 879)"
  "str_lower sample_lib = map sample_lower"
  "is_space sample_lib = (\<lambda>c. (9 \<le> c \<and> c \<le> 13) \<or> (28 \<le> c \<and> c \<le> 32))"
  "is_digit sample_lib = (\<lambda>c. 48 \<le> c \<and> c \<le> 57)"
  by (simp_all add: sample_lib_def)

subsection \<open>Splitting and joining\<close>

lemma str_split_nonempty: "str_split sep s \<noteq> []"
  by (induction s) (auto split: list.splits)

lemma str_split_no_sep: "sep \<notin> set s \<Longrightarrow> str_split sep s = [s]"
  by (induction s) auto

lemma str_split_append:
  "sep \<notin> set s \<Longrightarrow> str_split sep (s @ sep # rest) = s # str_split sep rest"
  by (induction s) auto

lemma str_split_join:
  "cols \<noteq> [] \<Longrightarrow> \<forall>f \<in> set cols. sep \<notin> set f \<Longrightarrow>
     str_split sep (str_join [sep] cols) = cols"
proof (induction cols)
  case Nil
  then show ?case by simp
next
  case (Cons x xs)
  show ?case
  proof (cases xs)
    case Nil
    with Cons.prems show ?thesis by (simp add: str_split_no_sep)
  next
    case (Cons y ys)
    with Cons.IH Cons.prems have "str_split sep (str_join [sep] xs) = xs" by simp
    with Cons Cons.prems show ?thesis by (simp add: str_split_append)
  qed
qed

lemma str_split_max_first:
  "sep \<notin> set s \<Longrightarrow> str_split_max sep (Suc 0) (s @ sep # rest) = [s, rest]"
  by (induction s) auto

lemma str_split_max_5:
  "str_split_max sep 5 s = str_split_max sep (Suc (Suc (Suc (Suc (Suc 0))))) s"
  by (simp add: eval_nat_numeral)

subsection \<open>The common prefix is the longest one\<close>

lemma commonprefix_prefix: "s \<in> set ss \<Longrightarrow> prefix (commonprefix ss) s"
proof (induction ss rule: commonprefix.induct)
  case 1
  then show ?case by simp
next
  case (2 s')
  then show ?case by simp
next
  case (3 a b bs)
  show ?case
  proof (cases "s = a")
    case True
    then show ?thesis by (simp add: longest_common_prefix_prefix1)
  next
    case False
    with 3 have "prefix (commonprefix (b # bs)) s" by simp
    moreover have "prefix (commonprefix (a # b # bs)) (commonprefix (b # bs))"
      by (simp add: longest_common_prefix_prefix2)
    ultimately show ?thesis by (rule prefix_order.order_trans[rotated])
  qed
qed

lemma commonprefix_greatest:
  "ss \<noteq> [] \<Longrightarrow> (\<And>s. s \<in> set ss \<Longrightarrow> prefix q s) \<Longrightarrow> prefix q (commonprefix ss)"
proof (induction ss rule: commonprefix.induct)
  case 1
  then show ?case by simp
next
  case (2 s')
  then show ?case by simp
next
  case (3 a b bs)
  have "prefix q a" using 3(3) by simp
  moreover have "prefix q (commonprefix (b # bs))" using 3 by simp
  ultimately show ?case by (simp add: longest_common_prefix_max_prefix)
qed

lemma commonprefix_unique:
  assumes "ss \<noteq> []"
    and "\<forall>s \<in> set ss. prefix p s"
    and "\<forall>q. (\<forall>s \<in> set ss. prefix q s) \<longrightarrow> length q \<le> length p"
  shows "commonprefix ss = p"
proof -
  have 1: "prefix p (commonprefix ss)"
    using assms(1,2) by (auto intro: commonprefix_greatest)
  have "\<forall>s \<in> set ss. prefix (commonprefix ss) s"
    by (simp add: commonprefix_prefix)
  with assms(3) have "length (commonprefix ss) \<le> length p" by blast
  moreover from 1 obtain zs where "commonprefix ss = p @ zs"
    by (auto simp add: prefix_def)
  ultimately show ?thesis by simp
qed

lemma commonprefix_is_longest:
  assumes "ss \<noteq> []" and "commonprefix ss = p"
  shows "(\<forall>s \<in> set ss. prefix p s) \<and>
         (\<forall>q. (\<forall>s \<in> set ss. prefix q s) \<longrightarrow> length q \<le> length p)"
  using assms commonprefix_prefix[of _ ss] commonprefix_greatest[of ss]
  by (auto intro: prefix_length_le)

lemma strip_suffix_none:
  "\<forall>sfx \<in> set sfxs. \<not> endswith l sfx \<Longrightarrow> strip_suffix stem l sfxs = stem"
  by (induction sfxs) simp_all

subsection \<open>The loops\<close>

lemma conllu_loop_append:
  "conllu_loop L (pre @ post) acc = conllu_loop L post (conllu_loop L pre acc)"
  by (induction pre arbitrary: acc) (simp_all add: Let_def)

lemma first_class_first_match:
  assumes "\<forall>(tag', endings') \<in> set before. \<not> list_ex (endswith lemma) endings'"
    and "list_ex (endswith lemma) endings"
  shows "first_class lemma (before @ (tag, endings) # after) = Some tag"
  using assms by (induction before) auto

lemma first_class_none:
  "\<forall>(tag, endings) \<in> set classes. \<not> list_ex (endswith lemma) endings \<Longrightarrow>
     first_class lemma classes = None"
  by (induction classes) auto

lemma conllu_loop_acc: "conllu_loop L ls acc = acc @ conllu_loop L ls []"
proof (induction ls arbitrary: acc)
  case Nil
  then show ?case by simp
next
  case (Cons l ls)
  have eq1: "conllu_loop L ls (acc @ [r]) = acc @ [r] @ conllu_loop L ls []" for r
    using Cons.IH[of "acc @ [r]"] by simp
  have eq2: "conllu_loop L ls [r] = [r] @ conllu_loop L ls []" for r
    by (rule Cons.IH)
  have eq3: "conllu_loop L ls acc = acc @ conllu_loop L ls []"
    by (rule Cons.IH)
  show ?case
    by (simp add: Let_def eq1 eq2 eq3)
qed

lemma from_conllu_append: "from_conllu L (xs @ ys) = from_conllu L xs @ from_conllu L ys"
  using conllu_loop_acc[of L ys "conllu_loop L xs []"]
  by (simp add: from_conllu_def conllu_loop_append)

lemma from_conllu_Cons: "from_conllu L (x # xs) = from_conllu L [x] @ from_conllu L xs"
  using from_conllu_append[of L "[x]" xs] by simp

text \<open>No marker ends in a newline, so a piece that keeps the line terminator is none.\<close>

lemma TO_IGNORE_no_newline: "f @ [NL] \<notin> set TO_IGNORE"
proof
  assume "f @ [NL] \<in> set TO_IGNORE"
  then have "last (f @ [NL]) \<in> last ` set TO_IGNORE" by (rule imageI)
  then show False by (simp add: TO_IGNORE_def char_defs)
qed


text \<open>
  Whenever fewer than two lines follow position \<open>i\<close>, \<open>update_contraction\<close> raises: the
  end-of-file test is made before \<open>i\<close> is incremented.
\<close>

lemma update_contraction_near_end_raises:
  "i < length lines \<Longrightarrow> length lines \<le> i + 2 \<Longrightarrow> \<exists>e. update_contraction L lines i = Inl e"
  by (auto simp add: update_contraction_def numeral_2_eq_2 Let_def split: list.splits)

text \<open>
  A line that does not split into five fields is never left: \<open>continue\<close> jumps back to
  the loop test without \<open>i += 1\<close>, so the loop returns nothing from such an index.
\<close>

lemma inflections_loop_stuck:
  assumes "inflections_loop L lines t i = Some y"
  shows "\<not> (i < length lines \<and> length (str_split TAB (str_strip L (lines ! i))) \<noteq> 5)"
proof (rule inflections_loop.raw_induct
    [where P = "\<lambda>L lines t i y.
        \<not> (i < length lines \<and> length (str_split TAB (str_strip L (lines ! i))) \<noteq> 5)",
      OF _ assms])
  fix f L lines t i y
  assume IH: "\<And>L lines t i y. f L lines t i = Some y \<Longrightarrow>
                 \<not> (i < length lines \<and> length (str_split TAB (str_strip L (lines ! i))) \<noteq> 5)"
    and st: "(if i < length lines
          then let tabs = str_split TAB (str_strip L (lines ! i))
               in if length tabs \<noteq> 5 then f L lines t i
                  else case update L t tabs lines i of Inl e \<Rightarrow> Some (Inl e)
                       | Inr inflections' \<Rightarrow> f L lines inflections' (i + 1)
          else Some (Inr t)) = Some y"
  show "\<not> (i < length lines \<and> length (str_split TAB (str_strip L (lines ! i))) \<noteq> 5)"
  proof
    assume s: "i < length lines \<and> length (str_split TAB (str_strip L (lines ! i))) \<noteq> 5"
    with st have "f L lines t i = Some y" by (simp add: Let_def)
    from IH[OF this] s show False by simp
  qed
qed

lemma inflections_loop_diverges:
  assumes "i < length lines"
    and "length (str_split TAB (str_strip L (lines ! i))) \<noteq> 5"
  shows "inflections_loop L lines t i = None"
proof (cases "inflections_loop L lines t i")
  case None
  then show ?thesis .
next
  case (Some y)
  from inflections_loop_stuck[OF this] assms show ?thesis by simp
qed

text \<open>On well-formed input the loop does return: two lines of five fields each.\<close>

lemma get_inflections_two_lines:
  "get_inflections sample_lib
     [str_join [TAB] (map ascii [''se'', ''se'', ''ADP'', ''ADP'', ''_'']) @ [NL],
      str_join [TAB] (map ascii [''to'', ''o'', ''DET'', ''DET'', ''Case=Acc'']) @ [NL]] =
   Some (Inr [(ascii ''se'', Bare (ascii ''ADP'')),
              (ascii ''o'', Inflected (ascii ''DET'') [(ascii ''to'', [ascii ''Case=Acc''])])])"
  by (simp add: get_inflections_def inflections_loop.simps str_strip_def update_def
      store_in_def INFLECTED_def char_defs)

lemma get_class_PROPN: "get_class lemma (ascii ''PROPN'') = Inl KeyError"
  by (simp add: get_class_def CLASSES_def)

text \<open>
  For the three parts of speech that have a class table and are not VERB, a lemma that
  matches no ending of the table gets the row \<open>lemma, lemma, pos.lower()\<close>.
\<close>

lemma lexicon_entry_fallback:
  assumes "pos \<in> {ascii ''ADJ'', ascii ''NOUN'', ascii ''PRON''}"
    and "map_of CLASSES pos = Some classes"
    and "\<forall>(tag, endings) \<in> set classes. \<forall>e \<in> set endings. \<not> endswith lemma e"
    and "entry_pos info = pos"
  shows "lexicon_entry L lemma info = Inr (lemma @ [TAB] @ lemma @ [TAB] @ str_lower L pos)"
proof -
  have "first_class lemma classes = None"
    using assms(3) by (induction classes) (auto simp add: list_ex_iff)
  with assms(1,2) have "get_class lemma pos = Inr None"
    by (auto simp add: get_class_def)
  with assms(1,4) show ?thesis
    by (auto simp add: lexicon_entry_def analyze_inflections_def TO_STEM_def)
qed

section \<open>The claims about inflections.py\<close>

text \<open>
  C1 (the code at a failing input). The claim: \<open>get_inflections\<close> terminates on every
  finite list of lines and skips a line that does not split into exactly five fields.
  On the two lines \<open>"se\tse\tADP\tADP\t_\n"\<close> and \<open>"\n"\<close> the first line is stored and
  the loop then stays at index 1 for ever: \<open>get_inflections\<close> returns nothing.
\<close>

theorem get_inflections_blank_line_never_returns:
  "get_inflections sample_lib
     [str_join [TAB] (map ascii [''se'', ''se'', ''ADP'', ''ADP'', ''_'']) @ [NL], [NL]] = None"
proof -
  let ?ls = "[str_join [TAB] (map ascii [''se'', ''se'', ''ADP'', ''ADP'', ''_'']) @ [NL], [NL]]"
  have "inflections_loop sample_lib ?ls [] 0 =
        inflections_loop sample_lib ?ls [(ascii ''se'', Bare (ascii ''ADP''))] 1"
    by (subst inflections_loop.simps)
      (simp add: str_strip_def update_def store_in_def INFLECTED_def char_defs)
  also have "\<dots> = None"
    by (rule inflections_loop_diverges) (simp_all add: str_strip_def char_defs)
  finally show ?thesis by (simp add: get_inflections_def)
qed

text \<open>
  C5 (amended). For a record whose POS is not in \<open>INFLECTED\<close> and contains no \<open>+\<close>:
  when the lemma is not yet a key of the table, \<open>store_in\<close> creates or overwrites the
  entry of the surface form with \<open>{'pos': pos}\<close>, an entry without inflection map; when
  the lemma is already a key, \<open>store_in\<close> returns the table unchanged.
\<close>

theorem store_in_uninflected:
  assumes "pos \<notin> set INFLECTED" and "PLUS \<notin> set pos"
  shows "(\<not> has_key t lemma \<longrightarrow>
            store_in t word lemma pos ann = AList.update word (Bare pos) t \<and>
            map_of (store_in t word lemma pos ann) word = Some (Bare pos)) \<and>
         (has_key t lemma \<longrightarrow> store_in t word lemma pos ann = t)"
  using assms by (simp add: store_in_def Let_def update_conv')

text \<open>
  Witness for C5: the adposition with surface form and lemma U+03BC U+03B5, stored in the
  empty table.
\<close>

theorem store_in_uninflected_witness:
  "store_in [] [956, 949] (Some [956, 949]) (ascii ''ADP'') (ascii ''_'') =
     [([956, 949], Bare (ascii ''ADP''))]"
  using store_in_uninflected
    [of "ascii ''ADP''" "[]" "Some [956, 949]" "[956, 949]" "ascii ''_''"]
  by (simp add: INFLECTED_def char_defs)

text \<open>
  Counterexample to C5 as stated ("regardless of whether the lemma was already a key"):
  the lemma U+03BC U+03B5 is a key, the record has the elided surface form U+03BC U+0027
  and POS ADP; the table is returned unchanged and has no entry for the surface form.
\<close>

theorem store_in_uninflected_lemma_present:
  "store_in [([956, 949], Bare (ascii ''ADP''))] [956, 39] (Some [956, 949])
       (ascii ''ADP'') (ascii ''_'') = [([956, 949], Bare (ascii ''ADP''))] \<and>
   map_of (store_in [([956, 949], Bare (ascii ''ADP''))] [956, 39] (Some [956, 949])
       (ascii ''ADP'') (ascii ''_'')) [956, 39] = None"
  by (simp add: store_in_def INFLECTED_def char_defs)

text \<open>
  C6. When the lemma is a key whose entry has no inflection map, \<open>store_in\<close> with a POS
  of \<open>INFLECTED\<close> replaces that entry by the fresh entry
  \<open>{'pos': pos, 'inflections': {word: annotations}}\<close>; nothing of the old entry is kept.
\<close>

theorem store_in_overwrites_bare_entry:
  assumes "map_of t lemma = Some e" and "\<not> has_inflections e" and "pos \<in> set INFLECTED"
  shows "store_in t word (Some lemma) pos ann =
           AList.update lemma (Inflected pos [(word, str_split BAR ann)]) t \<and>
         map_of (store_in t word (Some lemma) pos ann) lemma =
           Some (Inflected pos [(word, str_split BAR ann)])"
proof -
  have "store_in t word (Some lemma) pos ann =
          AList.update lemma (Inflected pos [(word, str_split BAR ann)]) t"
    using assms by (cases e) (simp_all add: store_in_def Let_def)
  then show ?thesis by (simp add: update_conv')
qed

text \<open>
  Witness for C6: the key \<open>a\<close>, first stored as a bare ADP entry, then seen as the lemma
  of the NOUN form \<open>as\<close>.
\<close>

theorem store_in_overwrites_bare_entry_witness:
  "store_in [(ascii ''a'', Bare (ascii ''ADP''))] (ascii ''as'') (Some (ascii ''a''))
       (ascii ''NOUN'') (ascii ''Case=Nom|Number=Plur'') =
     [(ascii ''a'', Inflected (ascii ''NOUN'')
         [(ascii ''as'', [ascii ''Case=Nom'', ascii ''Number=Plur''])])]"
  using store_in_overwrites_bare_entry
    [of "[(ascii ''a'', Bare (ascii ''ADP''))]" "ascii ''a''" "Bare (ascii ''ADP'')"
        "ascii ''NOUN''" "ascii ''as''" "ascii ''Case=Nom|Number=Plur''"]
  by (simp add: INFLECTED_def char_defs)




text \<open>
  C10 (the code at a failing input). The claim: for every valid index \<open>i\<close>,
  \<open>update_contraction\<close> returns normally without reading outside the list, also when
  fewer than two lines follow. For a list of one line and \<open>i = 0\<close> the test
  \<open>i >= len(lines)\<close> fails, \<open>i\<close> becomes 1 and \<open>lines[1]\<close> raises IndexError.
\<close>

theorem update_contraction_last_line_IndexError:
  "update_contraction L [l] 0 = Inl IndexError"
  by (simp add: update_contraction_def numeral_2_eq_2)

section \<open>The claims about greek.py\<close>

text \<open>
  C2 (the code at a failing input). The claim: a stemmable entry that is not a VERB and
  matches no class ending gets the row with the raw lemma as stem and the lowercased POS
  as tag, in particular every PROPN entry. For a dictionary whose first item has POS
  PROPN, \<open>get_class\<close> looks up \<open>CLASSES["PROPN"]\<close>, which is not a key, and
  \<open>get_greek_lexicon\<close> ends with KeyError: no row is produced at all.
\<close>

theorem get_greek_lexicon_PROPN_KeyError:
  "get_greek_lexicon L ((lemma, Inflected (ascii ''PROPN'') forms) # rest) = Inl KeyError"
  using get_class_PROPN[of "lemma"]
  by (simp add: get_greek_lexicon_def lexicon_entry_def TO_STEM_def analyze_inflections_def)

text \<open>
  C4 (amended). Let \<open>p\<close> be the longest common prefix of the normalized lemma and the
  normalized forms. When the suffix branch of \<open>get_stem\<close> is taken (\<open>p\<close> is shorter than
  4 characters or fewer than 2 forms are recorded) and the normalized lemma ends in none
  of \<open>LEMMA_SUFFIXES\<close>, \<open>get_stem\<close> returns \<open>p\<close>; this is the normalized lemma when every
  normalized form starts with the normalized lemma, for instance when there is no form.
\<close>

theorem get_stem_no_suffix_keeps_prefix:
  assumes "length p < 4 \<or> length words < 2"
    and "\<forall>s \<in> set (remove_tonos L lemma # map (remove_tonos L) words). prefix p s"
    and "\<forall>q. (\<forall>s \<in> set (remove_tonos L lemma # map (remove_tonos L) words). prefix q s)
            \<longrightarrow> length q \<le> length p"
    and "\<forall>sfx \<in> set LEMMA_SUFFIXES. \<not> endswith (remove_tonos L lemma) sfx"
  shows "get_stem L lemma words = p \<and>
         ((\<forall>w \<in> set words. prefix (remove_tonos L lemma) (remove_tonos L w)) \<longrightarrow>
            get_stem L lemma words = remove_tonos L lemma)"
proof -
  have cp: "commonprefix (remove_tonos L lemma # map (remove_tonos L) words) = p"
    using assms(2,3) by (intro commonprefix_unique) simp_all
  with assms(1) strip_suffix_none[OF assms(4)] have stem: "get_stem L lemma words = p"
    by (auto simp add: get_stem_def Let_def)
  have "p = remove_tonos L lemma"
    if all: "\<forall>w \<in> set words. prefix (remove_tonos L lemma) (remove_tonos L w)"
  proof -
    from all have "\<forall>s \<in> set (remove_tonos L lemma # map (remove_tonos L) words).
                     prefix (remove_tonos L lemma) s"
      by simp
    with assms(3) have "length (remove_tonos L lemma) \<le> length p" by blast
    moreover from assms(2) obtain zs where "remove_tonos L lemma = p @ zs"
      by (auto simp add: prefix_def)
    ultimately show ?thesis by simp
  qed
  with stem show ?thesis by simp
qed

text \<open>
  Witness for C4: the lemma U+03BA U+03B1 U+03B9 with the single form U+03BA U+03B9; the
  longest common prefix is the one letter U+03BA.
\<close>

theorem get_stem_no_suffix_keeps_prefix_witness:
  "get_stem sample_lib [954, 945, 953] [[954, 953]] = [954]"
proof -
  let ?ss = "remove_tonos sample_lib [954, 945, 953] #
             map (remove_tonos sample_lib) [[954, 953]]"
  have cp: "commonprefix ?ss = [954]"
    by (simp add: remove_tonos_def sample_lower_def)
  have ne: "?ss \<noteq> []" by simp
  note h = commonprefix_is_longest[OF ne cp]
  have nosfx: "\<forall>sfx \<in> set LEMMA_SUFFIXES.
                 \<not> endswith (remove_tonos sample_lib [954, 945, 953]) sfx"
    by (simp add: LEMMA_SUFFIXES_def endswith_def remove_tonos_def sample_lower_def)
  show ?thesis
    using get_stem_no_suffix_keeps_prefix
      [of "[954]" "[[954, 953]]" sample_lib "[954, 945, 953]"] h nosfx
    by simp
qed

text \<open>
  Counterexample to C4 as stated: for the lemma U+03BA U+03B1 U+03B9 with the single
  form U+03BA U+03B9 fewer than 2 forms are recorded and the normalized lemma, which is
  the lemma itself, ends in no pattern of \<open>LEMMA_SUFFIXES\<close>; \<open>get_stem\<close> returns the one
  letter U+03BA, not the normalized lemma.
\<close>

theorem get_stem_not_normalized_lemma:
  "length [[954, 953 :: nat]] < 2 \<and>
   \<not> list_ex (endswith (remove_tonos sample_lib [954, 945, 953])) LEMMA_SUFFIXES \<and>
   remove_tonos sample_lib [954, 945, 953] = [954, 945, 953] \<and>
   get_stem sample_lib [954, 945, 953] [[954, 953]] = [954]"
  by (simp add: get_stem_def LEMMA_SUFFIXES_def endswith_def remove_tonos_def sample_lower_def)

text \<open>
  C8. For a lemma with at least 2 recorded forms: if \<open>p\<close> is the longest common prefix
  of the normalized lemma and all normalized forms and \<open>p\<close> has at least 4 characters,
  then \<open>get_stem\<close> returns exactly \<open>p\<close>.
\<close>

theorem get_stem_common_prefix:
  assumes "2 \<le> length words"
    and "\<forall>s \<in> set (remove_tonos L lemma # map (remove_tonos L) words). prefix p s"
    and "\<forall>q. (\<forall>s \<in> set (remove_tonos L lemma # map (remove_tonos L) words). prefix q s)
            \<longrightarrow> length q \<le> length p"
    and "4 \<le> length p"
  shows "get_stem L lemma words = p"
proof -
  have "commonprefix (remove_tonos L lemma # map (remove_tonos L) words) = p"
    using assms(2,3) by (intro commonprefix_unique) simp_all
  with assms(1,4) show ?thesis by (simp add: get_stem_def Let_def)
qed

text \<open>
  Witness for C8: the lemma \<open>grafo\<close> (U+03B3 U+03C1 U+03B1 U+03C6 U+03C9) with the two
  forms \<open>grafo\<close> and \<open>grafei\<close>; the stem is the four letters they share.
\<close>

theorem get_stem_common_prefix_witness:
  "get_stem sample_lib [947, 961, 945, 966, 969]
     [[947, 961, 945, 966, 969], [947, 961, 945, 966, 949, 953]] = [947, 961, 945, 966]"
proof -
  let ?ss = "remove_tonos sample_lib [947, 961, 945, 966, 969] #
             map (remove_tonos sample_lib)
               [[947, 961, 945, 966, 969], [947, 961, 945, 966, 949, 953]]"
  have cp: "commonprefix ?ss = [947, 961, 945, 966]"
    by (simp add: remove_tonos_def sample_lower_def)
  have ne: "?ss \<noteq> []" by simp
  note h = commonprefix_is_longest[OF ne cp]
  show ?thesis
    using get_stem_common_prefix
      [of "[[947, 961, 945, 966, 969], [947, 961, 945, 966, 949, 953]]" sample_lib
          "[947, 961, 945, 966, 969]" "[947, 961, 945, 966]"] h
    by simp
qed

text \<open>
  C9. \<open>get_class\<close> is a function of the lemma and the POS, and first match wins over the
  ordered table of the POS: the tag returned is that of the first class one of whose
  endings ends the lemma, whatever classes follow it, also when one of them matches too;
  when no class matches, the result is the empty tag for VERB and \<open>None\<close> otherwise. For
  every NOUN lemma ending in omicron, final sigma the class is \<open>masc-\<close> omicron sigma and
  the emitted tag \<open>noun-masc-\<close> omicron sigma (\<open>"NOUN".lower()\<close> being \<open>"noun"\<close>); a NOUN
  lemma ending in mu, alpha gets \<open>neut-\<close> mu alpha although the later class \<open>fem-\<close> alpha
  matches it as well.
\<close>

theorem get_class_first_match_wins:
  "(map_of CLASSES pos = Some (before @ (tag, endings) # after) \<and>
      (\<forall>(tag', endings') \<in> set before. \<not> list_ex (endswith lemma) endings') \<and>
      list_ex (endswith lemma) endings
        \<longrightarrow> get_class lemma pos = Inr (Some tag)) \<and>
   (map_of CLASSES pos = Some classes \<and>
      (\<forall>(tag', endings') \<in> set classes. \<not> list_ex (endswith lemma) endings')
        \<longrightarrow> get_class lemma pos = Inr (if pos = ascii ''VERB'' then Some [] else None)) \<and>
   (endswith lemma [959, 962]
        \<longrightarrow> get_class lemma (ascii ''NOUN'') = Inr (Some (ascii ''masc-'' @ [959, 962]))) \<and>
   (endswith lemma [959, 962] \<and> str_lower L (ascii ''NOUN'') = ascii ''noun''
        \<longrightarrow> lexicon_entry L lemma (Inflected (ascii ''NOUN'') forms) =
              Inr (lemma @ [TAB] @ get_stem L lemma (map fst forms) @ [TAB] @
                   ascii ''noun-masc-'' @ [959, 962])) \<and>
   (endswith lemma [956, 945]
        \<longrightarrow> list_ex (endswith lemma) [[945]] \<and>
            get_class lemma (ascii ''NOUN'') = Inr (Some (ascii ''neut-'' @ [956, 945])))"
proof -
  have 1: "map_of CLASSES pos = Some (before @ (tag, endings) # after) \<and>
      (\<forall>(tag', endings') \<in> set before. \<not> list_ex (endswith lemma) endings') \<and>
      list_ex (endswith lemma) endings
        \<longrightarrow> get_class lemma pos = Inr (Some tag)"
    by (auto simp add: get_class_def first_class_first_match)
  have 2: "map_of CLASSES pos = Some classes \<and>
      (\<forall>(tag', endings') \<in> set classes. \<not> list_ex (endswith lemma) endings')
        \<longrightarrow> get_class lemma pos = Inr (if pos = ascii ''VERB'' then Some [] else None)"
    by (auto simp add: get_class_def first_class_none)
  have 3: "endswith lemma [959, 962]
        \<longrightarrow> get_class lemma (ascii ''NOUN'') = Inr (Some (ascii ''masc-'' @ [959, 962]))"
    by (simp add: get_class_def CLASSES_def NOUN_CLASSES_def)
  have 4: "endswith lemma [959, 962] \<and> str_lower L (ascii ''NOUN'') = ascii ''noun''
        \<longrightarrow> lexicon_entry L lemma (Inflected (ascii ''NOUN'') forms) =
              Inr (lemma @ [TAB] @ get_stem L lemma (map fst forms) @ [TAB] @
                   ascii ''noun-masc-'' @ [959, 962])"
    using 3 by (auto simp add: lexicon_entry_def TO_STEM_def analyze_inflections_def char_defs)
  have 5: "endswith lemma [956, 945]
        \<longrightarrow> list_ex (endswith lemma) [[945]] \<and>
            get_class lemma (ascii ''NOUN'') = Inr (Some (ascii ''neut-'' @ [956, 945]))"
  proof
    assume e: "endswith lemma [956, 945]"
    then obtain r where r: "rev lemma = 945 # 956 # r"
      by (cases "rev lemma"; cases "tl (rev lemma)") (auto simp add: endswith_def)
    then show "list_ex (endswith lemma) [[945]] \<and>
            get_class lemma (ascii ''NOUN'') = Inr (Some (ascii ''neut-'' @ [956, 945]))"
      by (simp add: get_class_def CLASSES_def NOUN_CLASSES_def endswith_def)
  qed
  from 1 2 3 4 5 show ?thesis by blast
qed

text \<open>
  Witness for C9. The verb U+03B1 U+03B3 U+03B1 U+03C0 U+03AC U+03C9 ends in the \<open>b1\<close>
  ending alpha-tonos omega and in the ending omega of the later class \<open>a\<close>: the tag is
  \<open>b1\<close>. The noun U+03C0 U+03C1 U+03CC U+03B2 U+03BB U+03B7 U+03BC U+03B1 matches
  \<open>neut-\<close> mu alpha and the later \<open>fem-\<close> alpha: the tag is the former. The verb U+03B5
  U+03AF U+03BC U+03B1 U+03B9 matches no class and gets the empty tag, the pronoun U+03B5
  U+03C3 U+03CD none and gets \<open>None\<close>. The noun \<open>anthropos\<close>, written without accent, gets
  the row with the tag \<open>noun-masc-\<close> omicron sigma.
\<close>

theorem get_class_first_match_wins_witness:
  "get_class [945, 947, 945, 960, 940, 969] (ascii ''VERB'') = Inr (Some (ascii ''b1'')) \<and>
   list_ex (endswith [945, 947, 945, 960, 940, 969]) [[969]] \<and>
   get_class [960, 961, 972, 946, 955, 951, 956, 945] (ascii ''NOUN'') =
     Inr (Some (ascii ''neut-'' @ [956, 945])) \<and>
   list_ex (endswith [960, 961, 972, 946, 955, 951, 956, 945]) [[945]] \<and>
   get_class [949, 943, 956, 945, 953] (ascii ''VERB'') = Inr (Some []) \<and>
   get_class [949, 963, 973] (ascii ''PRON'') = Inr None \<and>
   lexicon_entry sample_lib [945, 957, 952, 961, 969, 960, 959, 962]
     (Inflected (ascii ''NOUN'') [([945, 957, 952, 961, 969, 960, 959, 962], [])]) =
     Inr ([945, 957, 952, 961, 969, 960, 959, 962] @ [TAB] @
          [945, 957, 952, 961, 969, 960] @ [TAB] @ ascii ''noun-masc-'' @ [959, 962])"
  using get_class_first_match_wins
    [of "ascii ''VERB''" "[]" "ascii ''b1''" "[[940, 969], [941, 969]]" "tl VERB_CLASSES"
        "[945, 947, 945, 960, 940, 969]" VERB_CLASSES sample_lib "[]"]
    get_class_first_match_wins
    [of "ascii ''NOUN''" "take 3 NOUN_CLASSES" "ascii ''neut-'' @ [956, 945]" "[[956, 945]]"
        "drop 4 NOUN_CLASSES" "[960, 961, 972, 946, 955, 951, 956, 945]" NOUN_CLASSES
        sample_lib "[]"]
    get_class_first_match_wins
    [of "ascii ''VERB''" "[]" "ascii ''b1''" "[[940, 969], [941, 969]]" "tl VERB_CLASSES"
        "[949, 943, 956, 945, 953]" VERB_CLASSES sample_lib "[]"]
    get_class_first_match_wins
    [of "ascii ''PRON''" "[]" "ascii ''b1''" "[]" "[]"
        "[949, 963, 973]" NOUN_CLASSES sample_lib "[]"]
    get_class_first_match_wins
    [of "ascii ''NOUN''" "[]" "[]" "[]" "[]"
        "[945, 957, 952, 961, 969, 960, 959, 962]" NOUN_CLASSES sample_lib
        "[([945, 957, 952, 961, 969, 960, 959, 962], [])]"]
  by (simp add: get_class_def CLASSES_def VERB_CLASSES_def NOUN_CLASSES_def endswith_def
      sample_lower_def get_stem_def remove_tonos_def LEMMA_SUFFIXES_def char_defs)

section \<open>The claim about file.py\<close>

text \<open>
  C3 (amended). \<open>from_conllu\<close> splits the unstripped line at its tabs, so for a corpus
  line \<open>ident TAB piece1 TAB ... TAB piecen\<close> the last piece keeps the line terminator.
  If some piece after the identifier is exactly one of the markers of \<open>TO_IGNORE\<close>, or
  the surface form (the first piece) contains a digit, the line is excluded: the output
  is the output for the corpus without it. Otherwise the line, unless it is a comment,
  is kept: it contributes one output line. So a marker that is only part of a longer
  piece does not exclude the line by itself, be it one of several pipe-joined features
  or the last column, which is followed by the newline.
\<close>

theorem from_conllu_excludes_marked_piece:
  assumes "TAB \<notin> set ident"
    and "cols \<noteq> []"
    and "\<forall>f \<in> set cols. TAB \<notin> set f"
  shows "((\<exists>f \<in> set cols. f \<in> set TO_IGNORE) \<or> (\<exists>c \<in> set (hd cols). is_digit L c)
            \<longrightarrow> from_conllu L (pre @ (ident @ TAB # str_join [TAB] cols) # post) =
                from_conllu L (pre @ post)) \<and>
         (\<not> startswith (ident @ TAB # str_join [TAB] cols) [HASH] \<and>
          \<not> ((\<exists>f \<in> set cols. f \<in> set TO_IGNORE) \<or> (\<exists>c \<in> set (hd cols). is_digit L c))
            \<longrightarrow> from_conllu L (pre @ (ident @ TAB # str_join [TAB] cols) # post) =
                from_conllu L pre @
                [str_lower L (hd cols) @ [TAB] @
                 str_join [TAB] (butlast (tl (str_split_max TAB 5 (str_join [TAB] cols)))) @
                 [NL]] @
                from_conllu L post) \<and>
         (cols = init @ [final @ [NL]]
            \<longrightarrow> (\<exists>f \<in> set cols. f \<in> set TO_IGNORE) = (\<exists>f \<in> set init. f \<in> set TO_IGNORE))"
proof -
  let ?line = "ident @ TAB # str_join [TAB] cols"
  let ?marked = "(\<exists>f \<in> set cols. f \<in> set TO_IGNORE) \<or> (\<exists>c \<in> set (hd cols). is_digit L c)"
  have parts: "str_split_max TAB 1 ?line = [ident, str_join [TAB] cols]"
    using assms(1) by (simp add: str_split_max_first)
  have anns: "str_split TAB (str_join [TAB] cols) = cols"
    using assms(2,3) by (rule str_split_join)
  have ign: "(list_ex (\<lambda>n. n \<in> set TO_IGNORE) cols \<or> list_ex (is_digit L) (cols ! 0)) = ?marked"
    using assms(2) by (auto simp add: list_ex_iff hd_conv_nth)
  obtain c cs where cols: "cols = c # cs" using assms(2) by (cases cols) auto
  have notab: "TAB \<notin> set c" using assms(3) cols by simp
  have hd5: "str_split_max TAB 5 (str_join [TAB] cols) ! 0 = hd cols"
  proof (cases cs)
    case Nil
    have "str_split_max TAB (Suc n) c = [c]" for n
      using notab by (induction c) auto
    with Nil cols show ?thesis by (simp add: str_split_max_5)
  next
    case (Cons d ds)
    have "str_split_max TAB (Suc n) (c @ TAB # r) = c # str_split_max TAB n r" for n r
      using notab by (induction c) auto
    with Cons cols show ?thesis by (simp add: str_split_max_5)
  qed
  have ex: "?marked \<longrightarrow> from_conllu L [?line] = []"
    using ign parts anns by (auto simp add: from_conllu_def Let_def)
  have keep: "\<not> startswith ?line [HASH] \<and> \<not> ?marked \<longrightarrow>
      from_conllu L [?line] =
        [str_lower L (hd cols) @ [TAB] @
         str_join [TAB] (butlast (tl (str_split_max TAB 5 (str_join [TAB] cols)))) @ [NL]]"
    using ign parts anns hd5 by (auto simp add: from_conllu_def Let_def)
  have split: "from_conllu L (pre @ ?line # post) =
               from_conllu L pre @ from_conllu L [?line] @ from_conllu L post"
    using from_conllu_append[of L pre "?line # post"] from_conllu_Cons[of L ?line post]
    by simp
  have a: "?marked \<longrightarrow> from_conllu L (pre @ ?line # post) = from_conllu L (pre @ post)"
    using ex split from_conllu_append[of L pre post] by simp
  have b: "\<not> startswith ?line [HASH] \<and> \<not> ?marked \<longrightarrow>
      from_conllu L (pre @ ?line # post) =
        from_conllu L pre @
        [str_lower L (hd cols) @ [TAB] @
         str_join [TAB] (butlast (tl (str_split_max TAB 5 (str_join [TAB] cols)))) @ [NL]] @
        from_conllu L post"
    using keep split by simp
  have c: "cols = init @ [final @ [NL]]
            \<longrightarrow> (\<exists>f \<in> set cols. f \<in> set TO_IGNORE) = (\<exists>f \<in> set init. f \<in> set TO_IGNORE)"
    using TO_IGNORE_no_newline[of final] by auto
  from a b c show ?thesis by blast
qed

text \<open>
  Witness for C3. Of two newline-terminated corpus lines the second has the pieces \<open>X\<close>
  and \<open>Foreign=Yes\<close>: only the first line is written. A line whose feature string is
  \<open>Abbr=Yes|Case=Nom\<close> and whose last column is \<open>X\<close>, followed by the newline, has no
  piece equal to a marker and is written.
\<close>

theorem from_conllu_excludes_marked_piece_witness:
  "from_conllu sample_lib
     [ascii ''1'' @ TAB # str_join [TAB] (map ascii [''foo'', ''foo'', ''NOUN'', ''NOUN'',
        ''_'', ''0'', ''root'', ''_'', ''_'']) @ [NL],
      ascii ''2'' @ TAB # str_join [TAB] (map ascii [''bar'', ''bar'', ''X'', ''X'',
        ''Foreign=Yes'', ''1'', ''nsubj'', ''_'', ''_'']) @ [NL]] =
   [str_join [TAB] (map ascii [''foo'', ''foo'', ''NOUN'', ''NOUN'', ''_'']) @ [NL]] \<and>
   from_conllu sample_lib
     [ascii ''3'' @ TAB # str_join [TAB] (map ascii [''baz'', ''baz'', ''NOUN'', ''NOUN'',
        ''Abbr=Yes|Case=Nom'', ''1'', ''obj'', ''_'', ''X'']) @ [NL]] =
   [str_join [TAB] (map ascii [''baz'', ''baz'', ''NOUN'', ''NOUN'', ''Abbr=Yes|Case=Nom''])
      @ [NL]]"
  using from_conllu_excludes_marked_piece
    [of "ascii ''2''"
        "map ascii [''bar'', ''bar'', ''X'', ''X'', ''Foreign=Yes'', ''1'', ''nsubj'', ''_'']
           @ [ascii ''_'' @ [NL]]"
        sample_lib
        "[ascii ''1'' @ TAB # str_join [TAB] (map ascii [''foo'', ''foo'', ''NOUN'', ''NOUN'',
            ''_'', ''0'', ''root'', ''_'', ''_'']) @ [NL]]"
        "[]"]
    from_conllu_excludes_marked_piece
    [of "ascii ''3''"
        "map ascii [''baz'', ''baz'', ''NOUN'', ''NOUN'', ''Abbr=Yes|Case=Nom'', ''1'', ''obj'',
                    ''_''] @ [ascii ''X'' @ [NL]]"
        sample_lib "[]" "[]"
        "map ascii [''baz'', ''baz'', ''NOUN'', ''NOUN'', ''Abbr=Yes|Case=Nom'', ''1'', ''obj'',
                    ''_'']"
        "ascii ''X''"]
  by (simp add: from_conllu_def TO_IGNORE_def startswith_def sample_lower_def
      str_split_max_5 char_defs)

text \<open>
  Counterexample to C3 as stated ("anywhere within it, as one marker among several
  pipe-joined features"): the feature string \<open>Foreign=Yes|Number=Sing\<close> contains the
  marker \<open>Foreign=Yes\<close> as one of its two features, and the line is written to the
  output.
\<close>

theorem from_conllu_keeps_joined_marker:
  "ascii ''Foreign=Yes'' \<in> set TO_IGNORE \<and>
   ascii ''Foreign=Yes'' \<in> set (str_split BAR (ascii ''Foreign=Yes|Number=Sing'')) \<and>
   from_conllu sample_lib
     [ascii ''2'' @ TAB # str_join [TAB] (map ascii [''foo'', ''foo'', ''NOUN'', ''NOUN'',
        ''Foreign=Yes|Number=Sing'', ''4'', ''nsubj'', ''_'', ''_'']) @ [NL]] =
   [str_join [TAB] (map ascii [''foo'', ''foo'', ''NOUN'', ''NOUN'',
        ''Foreign=Yes|Number=Sing'']) @ [NL]]"
  by (simp add: from_conllu_def TO_IGNORE_def startswith_def sample_lower_def
      str_split_max_5 char_defs)

end
